theory Spec2Isabelle
  imports Main
begin

section \<open>PredictedProcess: a child process behind a promise, with a memoization cache\<close>

text \<open>
  The development embeds \<^verbatim>\<open>src/PredictedProcess.ts\<close>. The class owns an id, a command
  and a cache object keyed by strings. Its method \<^verbatim>\<open>run\<close> is asynchronous: the part up to
  the \<^verbatim>\<open>await\<close> executes synchronously inside the call, the remainder (the
  \<^verbatim>\<open>try\<close>/\<^verbatim>\<open>catch\<close> around the \<^verbatim>\<open>await\<close>) is a promise reaction job that is queued when
  the awaited promise settles and runs when the job in progress has ended. The embedding
  is an event system over a world that holds the object, its activations and the queue of
  reaction jobs. What the caller does inside a job of its own (calls of \<^verbatim>\<open>run\<close>,
  \<^verbatim>\<open>memoize\<close> and of \<^verbatim>\<open>abort\<close> on a controller) leaves the queue alone, the end of that job
  runs the queue, and what the event loop delivers (\<^verbatim>\<open>close\<close>, \<^verbatim>\<open>error\<close>, a timer, an abort
  raised outside the caller's code) is a job of its own, with the queue run at its end.
\<close>

subsection \<open>Values\<close>

type_synonym sigid = nat \<comment> \<open>the identity of an \<^verbatim>\<open>AbortSignal\<close> object\<close>
type_synonym runid = nat \<comment> \<open>the n-th activation of \<^verbatim>\<open>run\<close> that called \<^verbatim>\<open>spawn\<close>\<close>
type_synonym objref = nat \<comment> \<open>the identity of a \<^verbatim>\<open>PredictedProcess\<close> object\<close>

text \<open>
  The values that travel through \<^verbatim>\<open>reject\<close> and \<^verbatim>\<open>throw\<close>: a \<^verbatim>\<open>DOMException\<close> with its
  message and name, an error object emitted by the child process (told apart by its
  identity), and the \<^verbatim>\<open>TypeError\<close> the language raises itself.
\<close>

datatype js_value =
    DOMException string string
  | ErrorObject nat
  | TypeError string

text \<open>
  \<^verbatim>\<open>new error\<close>: the operand of \<^verbatim>\<open>new\<close> has to be a constructor. None of the values
  above is callable, so the expression raises a \<^verbatim>\<open>TypeError\<close> and that is what
  \<^verbatim>\<open>throw new error\<close> throws.
\<close>

fun new_error :: "js_value \<Rightarrow> js_value" where
  "new_error (DOMException msg name) = TypeError ''error is not a constructor''"
| "new_error (ErrorObject n) = TypeError ''error is not a constructor''"
| "new_error (TypeError msg) = TypeError ''error is not a constructor''"

datatype promise = Pending | Fulfilled | Rejected js_value

text \<open>
  One record per activation of \<^verbatim>\<open>run\<close> that got as far as the call of \<^verbatim>\<open>spawn\<close>: the locals
  \<^verbatim>\<open>cacheKey\<close>, \<^verbatim>\<open>signal\<close> and \<^verbatim>\<open>promiseToSend\<close>, the promise of the \<^verbatim>\<open>async\<close> function
  itself, and what has happened to \<^verbatim>\<open>child\<close>: whether \<^verbatim>\<open>kill\<close> was called on it, whether
  its \<^verbatim>\<open>close\<close> and \<^verbatim>\<open>error\<close> listeners are still attached, and whether the 5000 ms timer
  of this activation is still to fire. An activation whose \<^verbatim>\<open>spawn\<close> threw has no child:
  no listeners are attached and no timer is set.
\<close>

record run_state =
  cacheKey :: string
  signal :: "sigid option"
  promiseToSend :: promise
  returned :: promise
  child_killed :: bool
  child_listeners :: bool
  timer_armed :: bool

text \<open>
  The object (\<open>self\<close> stands for \<^verbatim>\<open>this\<close>, \<open>id_num\<close> for the field \<^verbatim>\<open>id\<close>) together with
  the part of the environment it acts on: the activations, the commands for which
  \<^verbatim>\<open>spawn\<close> has started a child so far, the signals that are aborted, the \<^verbatim>\<open>abort\<close>
  listeners in the order of their registration (a listener is the \<^verbatim>\<open>abortHandler\<close>
  closure of an activation), and the queue of reaction jobs (a job is the continuation of
  an activation after its \<^verbatim>\<open>await\<close>). The field \<^verbatim>\<open>_childProcess\<close> is never assigned and
  stays \<^verbatim>\<open>null\<close>.
\<close>

record world =
  self :: objref
  id_num :: int
  command :: string
  childProcess :: "nat option"
  memoizedCache :: "string \<rightharpoonup> objref"
  runs :: "run_state list"
  spawned :: "string list"
  aborted :: "sigid set"
  abort_listeners :: "(sigid \<times> runid) list"
  jobs :: "runid list"

text \<open>\<^verbatim>\<open>new PredictedProcess(id, command)\<close>, allocated at \<open>ref\<close>.\<close>

definition constructor :: "objref \<Rightarrow> int \<Rightarrow> string \<Rightarrow> world" where
  "constructor ref i cmd =
     \<lparr> self = ref, id_num = i, command = cmd, childProcess = None,
       memoizedCache = Map.empty, runs = [], spawned = [],
       aborted = {}, abort_listeners = [], jobs = [] \<rparr>"

subsection \<open>Numbers in template literals\<close>

text \<open>
  \<^verbatim>\<open>${this.id}\<close> renders the number. The ids of the model are the integers, and
  \<open>string_of_int\<close> is the rendering of the language for an integer of magnitude below
  \<^verbatim>\<open>1e21\<close>: the decimal digits, with a minus sign in front of a negative one. An id that
  is no integer, or an integer from \<^verbatim>\<open>1e21\<close> on (which the language renders with an
  exponent), is outside the model. The invariant of the cache below never unfolds
  \<open>string_of_int\<close>: it holds for whatever the rendering of the id is.
\<close>

fun string_of_nat :: "nat \<Rightarrow> string" where
  "string_of_nat n =
     (if n < 10 then [''0123456789'' ! n]
      else string_of_nat (n div 10) @ [''0123456789'' ! (n mod 10)])"

declare string_of_nat.simps [simp del]

definition string_of_int :: "int \<Rightarrow> string" where
  "string_of_int i =
     (if i < 0 then ''-'' @ string_of_nat (nat (- i)) else string_of_nat (nat i))"

subsection \<open>The methods\<close>

text \<open>\<^verbatim>\<open>signal?.aborted\<close> as a condition: \<^verbatim>\<open>undefined\<close> is falsy.\<close>

fun signal_aborted :: "world \<Rightarrow> sigid option \<Rightarrow> bool" where
  "signal_aborted w None = False"
| "signal_aborted w (Some sg) = (sg \<in> aborted w)"

definition handleAbortedSignal :: promise where
  "handleAbortedSignal = Rejected (DOMException ''Signal already aborted!'' ''AbortError'')"

text \<open>
  \<^verbatim>\<open>`${this.id}_${signal?.aborted}`\<close>: an absent signal renders as \<^verbatim>\<open>undefined\<close>, a
  present one as its flag.
\<close>

definition buildCacheKey :: "world \<Rightarrow> sigid option \<Rightarrow> string" where
  "buildCacheKey w sig =
     string_of_int (id_num w) @ ''_'' @
       (case sig of
          None \<Rightarrow> ''undefined''
        | Some sg \<Rightarrow> if sg \<in> aborted w then ''true'' else ''false'')"

text \<open>
  \<^verbatim>\<open>handleAbortedSignalTriggeredDuringExecution\<close>: the timer is set in any case (the
  flag \<open>timer_armed\<close> of the activation), the listener is added when there is a signal.
\<close>

definition handleAbortedSignalTriggeredDuringExecution ::
    "sigid option \<Rightarrow> runid \<Rightarrow> world \<Rightarrow> world" where
  "handleAbortedSignalTriggeredDuringExecution sig rid w =
     (case sig of
        None \<Rightarrow> w
      | Some sg \<Rightarrow> w\<lparr>abort_listeners := abort_listeners w @ [(sg, rid)]\<rparr>)"

text \<open>What a call of \<^verbatim>\<open>run\<close> hands back: a settled promise, or the promise of an activation.\<close>

datatype call_result = Returned promise | InFlight runid

text \<open>
  \<^verbatim>\<open>spawn(this.command)\<close> is the primitive of the runtime. It validates its argument
  and throws synchronously for the empty command; any other command gets a child, and a
  command that cannot be started shows as an \<^verbatim>\<open>error\<close> event of that child.
\<close>

definition spawn_throws :: "string \<Rightarrow> js_value option" where
  "spawn_throws cmd = (if cmd = [] then Some (TypeError ''ERR_INVALID_ARG_VALUE'') else None)"

text \<open>
  \<^verbatim>\<open>run\<close> up to its \<^verbatim>\<open>await\<close>. The executor of \<^verbatim>\<open>promiseToSend\<close> runs inside the
  constructor call: \<^verbatim>\<open>spawn\<close>, the two listeners on the child, the timer and the abort
  listener. When \<^verbatim>\<open>spawn\<close> throws, the executor is left at that point: the promise is
  rejected with what was thrown, there is no child, no listener and no timer. In both
  cases the cache is written next, and the \<^verbatim>\<open>await\<close> suspends the activation; on a
  promise that is rejected already, the continuation is queued at once.
  \<^verbatim>\<open>key in cache\<close> is membership in the domain: no key built by this class names a
  property of \<^verbatim>\<open>Object.prototype\<close>.
\<close>

definition run :: "world \<Rightarrow> sigid option \<Rightarrow> call_result \<times> world" where
  "run w sig =
     (if signal_aborted w sig then (Returned handleAbortedSignal, w)
      else
        let key = buildCacheKey w sig in
        if key \<in> dom (memoizedCache w) then (Returned Fulfilled, w)
        else
          let rid = length (runs w);
              w2 = (case spawn_throws (command w) of
                      Some thrown \<Rightarrow>
                        w\<lparr>runs := runs w @
                            [\<lparr> cacheKey = key, signal = sig,
                               promiseToSend = Rejected thrown, returned = Pending,
                               child_killed = False, child_listeners = False,
                               timer_armed = False \<rparr>],
                          jobs := jobs w @ [rid]\<rparr>
                    | None \<Rightarrow>
                        handleAbortedSignalTriggeredDuringExecution sig rid
                          (w\<lparr>spawned := spawned w @ [command w],
                             runs := runs w @
                               [\<lparr> cacheKey = key, signal = sig, promiseToSend = Pending,
                                  returned = Pending, child_killed = False,
                                  child_listeners = True, timer_armed = True \<rparr>]\<rparr>));
              w3 = w2\<lparr>memoizedCache := (memoizedCache w2)(key \<mapsto> self w2)\<rparr>
          in (InFlight rid, w3))"

definition memoize :: "world \<Rightarrow> objref \<times> world" where
  "memoize w =
     (let key = string_of_int (id_num w) @ ''_undefined'' in
      case memoizedCache w key of
        Some v \<Rightarrow> (v, w)
      | None \<Rightarrow> (self w, w\<lparr>memoizedCache := (memoizedCache w)(key \<mapsto> self w)\<rparr>))"

subsection \<open>Settling the promise of an activation\<close>

text \<open>
  \<^verbatim>\<open>resolve()\<close> and \<^verbatim>\<open>reject(e)\<close>: a settled promise stays as it is. Otherwise
  \<^verbatim>\<open>promiseToSend\<close> is settled and the continuation of the activation is queued.
\<close>

definition resolve :: "runid \<Rightarrow> world \<Rightarrow> world" where
  "resolve rid w =
     (if rid < length (runs w) \<and> promiseToSend (runs w ! rid) = Pending
      then w\<lparr>runs := (runs w)[rid := (runs w ! rid)\<lparr>promiseToSend := Fulfilled\<rparr>],
             jobs := jobs w @ [rid]\<rparr>
      else w)"

definition reject :: "runid \<Rightarrow> js_value \<Rightarrow> world \<Rightarrow> world" where
  "reject rid e w =
     (if rid < length (runs w) \<and> promiseToSend (runs w ! rid) = Pending
      then w\<lparr>runs := (runs w)[rid := (runs w ! rid)\<lparr>promiseToSend := Rejected e\<rparr>],
             jobs := jobs w @ [rid]\<rparr>
      else w)"

text \<open>
  The continuation of an activation, the \<^verbatim>\<open>try\<close>/\<^verbatim>\<open>catch\<close> around the \<^verbatim>\<open>await\<close>: after
  a fulfilment the function returns; after a rejection with \<open>e\<close> the \<^verbatim>\<open>catch\<close> block
  deletes the key and executes \<^verbatim>\<open>throw new error\<close>, which rejects the promise of the
  call.
\<close>

definition continuation :: "runid \<Rightarrow> world \<Rightarrow> world" where
  "continuation rid w =
     (if rid < length (runs w) then
        (case promiseToSend (runs w ! rid) of
           Pending \<Rightarrow> w
         | Fulfilled \<Rightarrow> w\<lparr>runs := (runs w)[rid := (runs w ! rid)\<lparr>returned := Fulfilled\<rparr>]\<rparr>
         | Rejected e \<Rightarrow>
             w\<lparr>runs := (runs w)[rid := (runs w ! rid)\<lparr>returned := Rejected (new_error e)\<rparr>],
               memoizedCache := (memoizedCache w)(cacheKey (runs w ! rid) := None)\<rparr>)
      else w)"

text \<open>The end of a job: the queued continuations run in order. None of them queues another.\<close>

definition drain :: "world \<Rightarrow> world" where
  "drain w = fold continuation (jobs w) (w\<lparr>jobs := []\<rparr>)"

subsection \<open>The handlers\<close>

text \<open>
  \<^verbatim>\<open>closeHandler(event)\<close>, \<open>event\<close> being the exit code (\<^verbatim>\<open>null\<close> when a signal ended
  the process). \<^verbatim>\<open>child\<close> is bound by the time an event arrives, so \<^verbatim>\<open>!child\<close> is false.
\<close>

definition closeHandler :: "runid \<Rightarrow> int option \<Rightarrow> world \<Rightarrow> world" where
  "closeHandler rid event w =
     (if event \<noteq> Some 0 then w
      else
        let w1 = w\<lparr>runs := (runs w)[rid := (runs w ! rid)\<lparr>child_killed := True,
                                                          child_listeners := False\<rparr>]\<rparr>
        in resolve rid w1)"

definition abortHandler :: "runid \<Rightarrow> world \<Rightarrow> world" where
  "abortHandler rid w = reject rid (DOMException ''Signal already aborted'' ''AbortError'') w"

definition errorHandler :: "runid \<Rightarrow> js_value \<Rightarrow> world \<Rightarrow> world" where
  "errorHandler rid error w = reject rid error w"

subsection \<open>What the environment does\<close>

text \<open>The child of an activation emits to the handlers that are attached.\<close>

definition emit_close :: "runid \<Rightarrow> int option \<Rightarrow> world \<Rightarrow> world" where
  "emit_close rid code w =
     (if rid < length (runs w) \<and> child_listeners (runs w ! rid)
      then closeHandler rid code w else w)"

definition emit_error :: "runid \<Rightarrow> js_value \<Rightarrow> world \<Rightarrow> world" where
  "emit_error rid e w =
     (if rid < length (runs w) \<and> child_listeners (runs w ! rid)
      then errorHandler rid e w else w)"

text \<open>
  \<^verbatim>\<open>abort()\<close> on the controller of a signal. A signal is aborted once: the flag is set
  and the listeners registered for it are called in order.
\<close>

definition abort :: "sigid \<Rightarrow> world \<Rightarrow> world" where
  "abort sg w =
     (if sg \<in> aborted w then w
      else fold abortHandler
             (map snd (filter (\<lambda>l. fst l = sg) (abort_listeners w)))
             (w\<lparr>aborted := insert sg (aborted w)\<rparr>))"

text \<open>
  The callback of \<^verbatim>\<open>setTimeout\<close> in \<^verbatim>\<open>handleAbortedSignalTriggeredDuringExecution\<close>:
  the timer of an activation fires once and removes its listener.
\<close>

definition fire_timer :: "runid \<Rightarrow> world \<Rightarrow> world" where
  "fire_timer rid w =
     (if rid < length (runs w) \<and> timer_armed (runs w ! rid)
      then w\<lparr>runs := (runs w)[rid := (runs w ! rid)\<lparr>timer_armed := False\<rparr>],
             abort_listeners :=
               (case signal (runs w ! rid) of
                  None \<Rightarrow> abort_listeners w
                | Some sg \<Rightarrow> removeAll (sg, rid) (abort_listeners w))\<rparr>
      else w)"

subsection \<open>Events\<close>

text \<open>
  \<open>Run\<close>, \<open>Memoize\<close> and \<open>AbortCall\<close> are calls made by the caller within its job in
  progress, and \<open>EndOfJob\<close> ends that job. \<open>Close\<close>, \<open>Error\<close> and \<open>Timeout\<close> are
  callbacks from the event loop, which starts one only when the queue of reaction jobs is
  empty and runs the queue when the callback has returned. \<open>Abort\<close> is an abort in a job
  that ends with it.
\<close>

datatype event =
    Run "sigid option"
  | Memoize
  | Close runid "int option"
  | Error runid js_value
  | Abort sigid
  | Timeout runid
  | AbortCall sigid
  | EndOfJob

fun step :: "world \<Rightarrow> event \<Rightarrow> world" where
  "step w (Run sig) = snd (run w sig)"
| "step w Memoize = snd (memoize w)"
| "step w (Close rid code) = drain (emit_close rid code (drain w))"
| "step w (Error rid e) = drain (emit_error rid e (drain w))"
| "step w (Abort sg) = drain (abort sg w)"
| "step w (Timeout rid) = drain (fire_timer rid (drain w))"
| "step w (AbortCall sg) = abort sg w"
| "step w EndOfJob = drain w"

definition exec :: "world \<Rightarrow> event list \<Rightarrow> world" where
  "exec w evs = foldl step w evs"

inductive reachable :: "world \<Rightarrow> world \<Rightarrow> bool" for w0 :: world where
  start: "reachable w0 w0"
| next_event: "reachable w0 w \<Longrightarrow> reachable w0 (step w ev)"

text \<open>The state of the promise a call handed back, as a later world shows it.\<close>

fun status :: "world \<Rightarrow> call_result \<Rightarrow> promise" where
  "status w (Returned p) = p"
| "status w (InFlight rid) =
     (if rid < length (runs w) then returned (runs w ! rid) else Pending)"

subsection \<open>A call that has been rejected has had its key deleted\<close>

text \<open>
  The promise of a call is rejected by the continuation alone, and there the key of the
  activation is deleted. \<open>rejected_uncached rid w\<close> says of the activation \<open>rid\<close> that its
  key is not in the cache if its call shows as rejected; it holds while the call is
  pending, and everything except \<^verbatim>\<open>run\<close> and \<^verbatim>\<open>memoize\<close> keeps it.
\<close>

definition rejected_uncached :: "runid \<Rightarrow> world \<Rightarrow> bool" where
  "rejected_uncached rid w =
     (case returned (runs w ! rid) of
        Rejected x \<Rightarrow> memoizedCache w (cacheKey (runs w ! rid)) = None
      | _ \<Rightarrow> True)"

section \<open>Frame and preservation lemmas\<close>

lemmas world_defs = exec_def run_def memoize_def constructor_def buildCacheKey_def
  handleAbortedSignalTriggeredDuringExecution_def handleAbortedSignal_def spawn_throws_def
  resolve_def reject_def continuation_def drain_def closeHandler_def abortHandler_def
  errorHandler_def emit_close_def emit_error_def abort_def fire_timer_def Let_def

subsection \<open>Settling touches neither the cache nor the promise of the call\<close>

lemma resolve_frame:
  "memoizedCache (resolve r w) = memoizedCache w"
  "length (runs (resolve r w)) = length (runs w)"
  "aborted (resolve r w) = aborted w"
  "id_num (resolve r w) = id_num w"
  "self (resolve r w) = self w"
  "command (resolve r w) = command w"
  "spawned (resolve r w) = spawned w"
  by (simp_all add: resolve_def)

lemma resolve_run:
  "returned (runs (resolve r w) ! rid) = returned (runs w ! rid)"
  "cacheKey (runs (resolve r w) ! rid) = cacheKey (runs w ! rid)"
  by (cases "r = rid"; simp add: resolve_def)+

lemma reject_frame:
  "memoizedCache (reject r e w) = memoizedCache w"
  "length (runs (reject r e w)) = length (runs w)"
  "aborted (reject r e w) = aborted w"
  "id_num (reject r e w) = id_num w"
  "self (reject r e w) = self w"
  "command (reject r e w) = command w"
  "spawned (reject r e w) = spawned w"
  by (simp_all add: reject_def)

lemma reject_run:
  "returned (runs (reject r e w) ! rid) = returned (runs w ! rid)"
  "cacheKey (runs (reject r e w) ! rid) = cacheKey (runs w ! rid)"
  by (cases "r = rid"; simp add: reject_def)+

lemma fold_abortHandler_frame:
  "memoizedCache (fold abortHandler rs w) = memoizedCache w"
  "length (runs (fold abortHandler rs w)) = length (runs w)"
  "aborted (fold abortHandler rs w) = aborted w"
  "id_num (fold abortHandler rs w) = id_num w"
  "self (fold abortHandler rs w) = self w"
  "command (fold abortHandler rs w) = command w"
  "spawned (fold abortHandler rs w) = spawned w"
  by (induction rs arbitrary: w; simp add: abortHandler_def reject_frame)+

lemma fold_abortHandler_run:
  "returned (runs (fold abortHandler rs w) ! rid) = returned (runs w ! rid)"
  "cacheKey (runs (fold abortHandler rs w) ! rid) = cacheKey (runs w ! rid)"
  by (induction rs arbitrary: w; simp add: abortHandler_def reject_run)+

lemma abort_frame:
  "memoizedCache (abort sg w) = memoizedCache w"
  "length (runs (abort sg w)) = length (runs w)"
  "id_num (abort sg w) = id_num w"
  "self (abort sg w) = self w"
  "command (abort sg w) = command w"
  "spawned (abort sg w) = spawned w"
  by (simp_all add: abort_def fold_abortHandler_frame)

lemma abort_run:
  "returned (runs (abort sg w) ! rid) = returned (runs w ! rid)"
  "cacheKey (runs (abort sg w) ! rid) = cacheKey (runs w ! rid)"
  by (simp_all add: abort_def fold_abortHandler_run)

lemma emit_error_frame:
  "memoizedCache (emit_error r e w) = memoizedCache w"
  "length (runs (emit_error r e w)) = length (runs w)"
  "aborted (emit_error r e w) = aborted w"
  "id_num (emit_error r e w) = id_num w"
  "self (emit_error r e w) = self w"
  "command (emit_error r e w) = command w"
  "spawned (emit_error r e w) = spawned w"
  by (simp_all add: emit_error_def errorHandler_def reject_frame)

lemma emit_error_run:
  "returned (runs (emit_error r e w) ! rid) = returned (runs w ! rid)"
  "cacheKey (runs (emit_error r e w) ! rid) = cacheKey (runs w ! rid)"
  by (simp_all add: emit_error_def errorHandler_def reject_run)

lemma emit_close_frame:
  "memoizedCache (emit_close r c w) = memoizedCache w"
  "length (runs (emit_close r c w)) = length (runs w)"
  "aborted (emit_close r c w) = aborted w"
  "id_num (emit_close r c w) = id_num w"
  "self (emit_close r c w) = self w"
  "command (emit_close r c w) = command w"
  "spawned (emit_close r c w) = spawned w"
  by (simp_all add: emit_close_def closeHandler_def Let_def resolve_frame)

lemma emit_close_run:
  "returned (runs (emit_close r c w) ! rid) = returned (runs w ! rid)"
  "cacheKey (runs (emit_close r c w) ! rid) = cacheKey (runs w ! rid)"
  by (cases "r = rid"; simp add: emit_close_def closeHandler_def Let_def resolve_run)+

lemma fire_timer_frame:
  "memoizedCache (fire_timer r w) = memoizedCache w"
  "length (runs (fire_timer r w)) = length (runs w)"
  "aborted (fire_timer r w) = aborted w"
  "id_num (fire_timer r w) = id_num w"
  "self (fire_timer r w) = self w"
  "command (fire_timer r w) = command w"
  "spawned (fire_timer r w) = spawned w"
  by (simp_all add: fire_timer_def)

lemma fire_timer_run:
  "returned (runs (fire_timer r w) ! rid) = returned (runs w ! rid)"
  "cacheKey (runs (fire_timer r w) ! rid) = cacheKey (runs w ! rid)"
  by (cases "r = rid"; simp add: fire_timer_def)+

subsection \<open>The continuation only ever deletes from the cache\<close>

lemma continuation_frame:
  "length (runs (continuation j w)) = length (runs w)"
  "aborted (continuation j w) = aborted w"
  "id_num (continuation j w) = id_num w"
  "self (continuation j w) = self w"
  "command (continuation j w) = command w"
  "spawned (continuation j w) = spawned w"
  by (simp_all add: continuation_def split: promise.splits)

lemma continuation_cache_None:
  "memoizedCache w k = None \<Longrightarrow> memoizedCache (continuation j w) k = None"
  by (simp add: continuation_def split: promise.splits)

lemma continuation_cache_Some:
  "memoizedCache (continuation j w) k = Some v \<Longrightarrow> memoizedCache w k = Some v"
  by (simp add: continuation_def split: promise.splits if_splits)

lemma continuation_cacheKey:
  "cacheKey (runs (continuation j w) ! rid) = cacheKey (runs w ! rid)"
  by (cases "j = rid") (simp_all add: continuation_def split: promise.splits)

lemma continuation_promiseToSend:
  "promiseToSend (runs (continuation j w) ! rid) = promiseToSend (runs w ! rid)"
  by (cases "j = rid") (simp_all add: continuation_def split: promise.splits)

lemma continuation_other:
  "j \<noteq> rid \<Longrightarrow> runs (continuation j w) ! rid = runs w ! rid"
  by (simp add: continuation_def split: promise.splits)

lemma fold_continuation_frame:
  "length (runs (fold continuation js w)) = length (runs w)"
  "aborted (fold continuation js w) = aborted w"
  "id_num (fold continuation js w) = id_num w"
  "self (fold continuation js w) = self w"
  "command (fold continuation js w) = command w"
  "spawned (fold continuation js w) = spawned w"
  by (induction js arbitrary: w; simp add: continuation_frame)+

lemma fold_continuation_cache_None:
  "memoizedCache w k = None \<Longrightarrow> memoizedCache (fold continuation js w) k = None"
  by (induction js arbitrary: w) (simp_all add: continuation_cache_None)

lemma fold_continuation_cache_Some:
  "memoizedCache (fold continuation js w) k = Some v \<Longrightarrow> memoizedCache w k = Some v"
  by (induction js arbitrary: w) (auto dest: continuation_cache_Some)

lemma fold_continuation_cacheKey:
  "cacheKey (runs (fold continuation js w) ! rid) = cacheKey (runs w ! rid)"
  by (induction js arbitrary: w) (simp_all add: continuation_cacheKey)

lemma drain_frame:
  "length (runs (drain w)) = length (runs w)"
  "aborted (drain w) = aborted w"
  "id_num (drain w) = id_num w"
  "self (drain w) = self w"
  "command (drain w) = command w"
  "spawned (drain w) = spawned w"
  by (simp_all add: drain_def fold_continuation_frame)

lemma drain_cache_None:
  "memoizedCache w k = None \<Longrightarrow> memoizedCache (drain w) k = None"
  by (simp add: drain_def fold_continuation_cache_None)

lemma drain_cache_Some:
  "memoizedCache (drain w) k = Some v \<Longrightarrow> memoizedCache w k = Some v"
  using fold_continuation_cache_Some [of "jobs w" "w\<lparr>jobs := []\<rparr>" k v]
  by (simp add: drain_def)

lemma drain_cacheKey:
  "cacheKey (runs (drain w) ! rid) = cacheKey (runs w ! rid)"
  by (simp add: drain_def fold_continuation_cacheKey)

lemma rejected_uncached_pending:
  "returned (runs w ! rid) = Pending \<Longrightarrow> rejected_uncached rid w"
  by (simp add: rejected_uncached_def)

lemma rejected_uncached_eq:
  assumes "returned (runs w' ! rid) = returned (runs w ! rid)"
    and "cacheKey (runs w' ! rid) = cacheKey (runs w ! rid)"
    and "memoizedCache w' = memoizedCache w"
  shows "rejected_uncached rid w' = rejected_uncached rid w"
  using assms by (simp add: rejected_uncached_def split: promise.splits)

lemma continuation_rejected_uncached:
  assumes "rejected_uncached rid w"
  shows "rejected_uncached rid (continuation j w)"
proof (cases "j = rid")
  case True
  then show ?thesis
    using assms
    by (auto simp: rejected_uncached_def continuation_def split: promise.splits)
next
  case False
  have "returned (runs (continuation j w) ! rid) = returned (runs w ! rid)"
    using False by (simp add: continuation_other)
  then show ?thesis
    using assms continuation_cache_None [of w "cacheKey (runs w ! rid)" j]
    by (auto simp: rejected_uncached_def continuation_cacheKey split: promise.splits)
qed

lemma fold_continuation_rejected_uncached:
  "rejected_uncached rid w \<Longrightarrow> rejected_uncached rid (fold continuation js w)"
  by (induction js arbitrary: w) (simp_all add: continuation_rejected_uncached)

lemma drain_rejected_uncached:
  assumes "rejected_uncached rid w"
  shows "rejected_uncached rid (drain w)"
proof -
  have "rejected_uncached rid (w\<lparr>jobs := []\<rparr>)"
    using assms by (simp add: rejected_uncached_def split: promise.splits)
  then show ?thesis
    unfolding drain_def by (rule fold_continuation_rejected_uncached)
qed

lemma abort_rejected_uncached:
  "rejected_uncached rid (abort sg w) = rejected_uncached rid w"
  by (rule rejected_uncached_eq) (simp_all add: abort_run abort_frame)

lemma emit_error_rejected_uncached:
  "rejected_uncached rid (emit_error r e w) = rejected_uncached rid w"
  by (rule rejected_uncached_eq) (simp_all add: emit_error_run emit_error_frame)

lemma emit_close_rejected_uncached:
  "rejected_uncached rid (emit_close r c w) = rejected_uncached rid w"
  by (rule rejected_uncached_eq) (simp_all add: emit_close_run emit_close_frame)

lemma fire_timer_rejected_uncached:
  "rejected_uncached rid (fire_timer r w) = rejected_uncached rid w"
  by (rule rejected_uncached_eq) (simp_all add: fire_timer_run fire_timer_frame)

text \<open>The key an activation was started with is the key it keeps.\<close>

lemma step_cacheKey:
  assumes "rid < length (runs w)"
  shows "cacheKey (runs (step w ev) ! rid) = cacheKey (runs w ! rid)"
proof (cases ev)
  case (Run sig)
  then show ?thesis
    using assms
    by (simp add: run_def Let_def handleAbortedSignalTriggeredDuringExecution_def nth_append
        split: option.splits)
next
  case Memoize
  then show ?thesis by (simp add: memoize_def Let_def split: option.splits)
qed (simp_all add: drain_cacheKey emit_close_run emit_error_run abort_run fire_timer_run)

text \<open>
  A step after which a call shows as rejected, while it was pending before, leaves the
  key of that call out of the cache.
\<close>

lemma step_rejected_cache:
  assumes "rid < length (runs w)" and "returned (runs w ! rid) = Pending"
    and "returned (runs (step w ev) ! rid) = Rejected x"
  shows "memoizedCache (step w ev) (cacheKey (runs w ! rid)) = None"
proof -
  have start: "rejected_uncached rid w"
    using assms(2) by (rule rejected_uncached_pending)
  have "rejected_uncached rid (step w ev)"
  proof (cases ev)
    case (Run sig)
    have "returned (runs (step w ev) ! rid) = returned (runs w ! rid)"
      using Run assms(1)
      by (simp add: run_def Let_def handleAbortedSignalTriggeredDuringExecution_def nth_append
          split: option.splits)
    with assms(2,3) show ?thesis by simp
  next
    case Memoize
    have "runs (step w ev) = runs w"
      using Memoize by (simp add: memoize_def Let_def split: option.splits)
    with assms(2,3) show ?thesis by simp
  next
    case (Close r code)
    then show ?thesis
      using start by (simp add: drain_rejected_uncached emit_close_rejected_uncached)
  next
    case (Error r e)
    then show ?thesis
      using start by (simp add: drain_rejected_uncached emit_error_rejected_uncached)
  next
    case (Abort sg)
    then show ?thesis
      using start by (simp add: drain_rejected_uncached abort_rejected_uncached)
  next
    case (Timeout r)
    then show ?thesis
      using start by (simp add: drain_rejected_uncached fire_timer_rejected_uncached)
  next
    case (AbortCall sg)
    then show ?thesis
      using start by (simp add: abort_rejected_uncached)
  next
    case EndOfJob
    then show ?thesis
      using start by (simp add: drain_rejected_uncached)
  qed
  then show ?thesis
    using assms(1,3) step_cacheKey [OF assms(1), of ev]
    by (simp add: rejected_uncached_def)
qed

subsection \<open>A fresh activation\<close>


text \<open>A key that is in the cache answers \<^verbatim>\<open>run\<close> at once, whatever put it there.\<close>

lemma run_served_from_cache:
  "\<not> signal_aborted w sig \<Longrightarrow> buildCacheKey w sig \<in> dom (memoizedCache w) \<Longrightarrow>
     run w sig = (Returned Fulfilled, w)"
  by (simp add: run_def Let_def)

text \<open>An exit code other than 0 (or none at all) is the same as no event.\<close>

lemma close_nonzero_ignored: "code \<noteq> Some 0 \<Longrightarrow> emit_close rid code w = w"
  by (simp add: emit_close_def closeHandler_def)

subsection \<open>The keys of the cache\<close>

text \<open>No step changes the id or the identity of the object.\<close>

lemma step_frame: "id_num (step w ev) = id_num w \<and> self (step w ev) = self w"
proof (cases ev)
  case (Run sig)
  then show ?thesis
    by (simp add: run_def Let_def handleAbortedSignalTriggeredDuringExecution_def
        split: option.splits)
next
  case Memoize
  then show ?thesis by (simp add: memoize_def Let_def split: option.splits)
qed (simp_all add: drain_frame emit_close_frame emit_error_frame abort_frame fire_timer_frame)

text \<open>Past the guard of \<^verbatim>\<open>run\<close> the key ends in \<^verbatim>\<open>undefined\<close> or in \<^verbatim>\<open>false\<close>.\<close>

lemma buildCacheKey_cases:
  "\<not> signal_aborted w sig \<Longrightarrow>
     buildCacheKey w sig = string_of_int (id_num w) @ ''_undefined''
   \<or> buildCacheKey w sig = string_of_int (id_num w) @ ''_false''"
  by (cases sig) (simp_all add: buildCacheKey_def)

text \<open>An entry of the cache after a step was there before, or is one of the two slots.\<close>

lemma step_cache:
  assumes "memoizedCache (step w ev) k = Some v"
  shows "memoizedCache w k = Some v
       \<or> (v = self w \<and> (k = string_of_int (id_num w) @ ''_undefined''
                        \<or> k = string_of_int (id_num w) @ ''_false''))"
proof (cases ev)
  case (Run sig)
  show ?thesis
  proof (cases "signal_aborted w sig \<or> buildCacheKey w sig \<in> dom (memoizedCache w)")
    case True
    have "snd (run w sig) = w"
    proof (cases "signal_aborted w sig")
      case True
      then show ?thesis by (simp add: run_def)
    next
      case False
      with \<open>signal_aborted w sig \<or> buildCacheKey w sig \<in> dom (memoizedCache w)\<close>
      have "buildCacheKey w sig \<in> dom (memoizedCache w)" by simp
      with False show ?thesis by (simp add: run_def Let_def)
    qed
    then show ?thesis using assms Run by simp
  next
    case False
    then have "memoizedCache (step w ev) = (memoizedCache w)(buildCacheKey w sig \<mapsto> self w)"
      using Run
      by (simp add: run_def Let_def handleAbortedSignalTriggeredDuringExecution_def
          split: option.splits)
    then show ?thesis
      using assms False buildCacheKey_cases [of w sig] by (auto split: if_splits)
  qed
next
  case Memoize
  then show ?thesis
    using assms by (auto simp: memoize_def Let_def split: option.splits if_splits)
next
  case (Close r code)
  then show ?thesis
    using assms by (auto simp: emit_close_frame dest!: drain_cache_Some)
next
  case (Error r e)
  then show ?thesis
    using assms by (auto simp: emit_error_frame dest!: drain_cache_Some)
next
  case (Abort sg)
  then show ?thesis
    using assms by (auto simp: abort_frame dest!: drain_cache_Some)
next
  case (Timeout r)
  then show ?thesis
    using assms by (auto simp: fire_timer_frame dest!: drain_cache_Some)
next
  case (AbortCall sg)
  then show ?thesis using assms by (simp add: abort_frame)
next
  case EndOfJob
  then show ?thesis using assms by (auto dest: drain_cache_Some)
qed

lemma reachable_cache:
  assumes "reachable (constructor ref i cmd) w"
  shows "id_num w = i \<and> self w = ref \<and>
         (\<forall>k v. memoizedCache w k = Some v \<longrightarrow>
            v = ref \<and> (k = string_of_int i @ ''_undefined''
                        \<or> k = string_of_int i @ ''_false''))"
  using assms
proof (induction rule: reachable.induct)
  case start
  then show ?case by (simp add: constructor_def)
next
  case (next_event w ev)
  then show ?case using step_frame [of w ev] step_cache [of w ev] by blast
qed

subsection \<open>The events that make a suspended activation fail\<close>

lemma reject_queues:
  assumes "rid < length (runs w)" and "promiseToSend (runs w ! rid) = Pending"
  shows "promiseToSend (runs (reject rid e w) ! rid) = Rejected e"
    and "rid \<in> set (jobs (reject rid e w))"
  using assms by (simp_all add: reject_def)

lemma reject_other:
  "r \<noteq> rid \<Longrightarrow> runs (reject r e w) ! rid = runs w ! rid"
  by (simp add: reject_def)

lemma reject_jobs_mono:
  "j \<in> set (jobs w) \<Longrightarrow> j \<in> set (jobs (reject r e w))"
  by (simp add: reject_def)

lemma fold_abortHandler_queues:
  assumes "rid < length (runs w)"
    and "(rid \<in> set rs \<and> promiseToSend (runs w ! rid) = Pending)
         \<or> (promiseToSend (runs w ! rid)
               = Rejected (DOMException ''Signal already aborted'' ''AbortError'')
            \<and> rid \<in> set (jobs w))"
  shows "promiseToSend (runs (fold abortHandler rs w) ! rid)
           = Rejected (DOMException ''Signal already aborted'' ''AbortError'')
         \<and> rid \<in> set (jobs (fold abortHandler rs w))"
  using assms
proof (induction rs arbitrary: w)
  case Nil
  then show ?case by simp
next
  case (Cons r rs)
  let ?e = "DOMException ''Signal already aborted'' ''AbortError''"
  let ?w' = "reject r ?e w"
  have unroll: "fold abortHandler (r # rs) w = fold abortHandler rs ?w'"
    by (simp add: abortHandler_def)
  have len: "rid < length (runs ?w')"
    using Cons.prems(1) by (simp add: reject_frame)
  have "(rid \<in> set rs \<and> promiseToSend (runs ?w' ! rid) = Pending)
         \<or> (promiseToSend (runs ?w' ! rid) = Rejected ?e \<and> rid \<in> set (jobs ?w'))"
  proof (cases "r = rid")
    case True
    show ?thesis
    proof (cases "promiseToSend (runs w ! rid) = Pending")
      case True
      with \<open>r = rid\<close> Cons.prems(1) show ?thesis
        using reject_queues [of rid w ?e] by simp
    next
      case False
      with \<open>r = rid\<close> have "?w' = w" by (simp add: reject_def)
      with False Cons.prems(2) show ?thesis by simp
    qed
  next
    case False
    then show ?thesis
      using Cons.prems(2) reject_other [of r rid ?e w] reject_jobs_mono [of rid w r ?e]
      by auto
  qed
  then show ?case
    unfolding unroll using len by (rule Cons.IH [rotated])
qed

lemma continuation_child:
  "child_listeners (runs (continuation j w) ! rid) = child_listeners (runs w ! rid)"
  by (cases "j = rid") (simp_all add: continuation_def split: promise.splits)

lemma fold_continuation_run:
  "child_listeners (runs (fold continuation js w) ! rid) = child_listeners (runs w ! rid)"
  "promiseToSend (runs (fold continuation js w) ! rid) = promiseToSend (runs w ! rid)"
  by (induction js arbitrary: w; simp add: continuation_child continuation_promiseToSend)+

lemma drain_run:
  "child_listeners (runs (drain w) ! rid) = child_listeners (runs w ! rid)"
  "promiseToSend (runs (drain w) ! rid) = promiseToSend (runs w ! rid)"
  by (simp_all add: drain_def fold_continuation_run)

lemma fold_continuation_rejects:
  assumes "rid < length (runs w)" and "promiseToSend (runs w ! rid) = Rejected e"
    and "rid \<in> set js \<or> returned (runs w ! rid) = Rejected (new_error e)"
  shows "returned (runs (fold continuation js w) ! rid) = Rejected (new_error e)"
  using assms
proof (induction js arbitrary: w)
  case Nil
  then show ?case by simp
next
  case (Cons j js)
  let ?w' = "continuation j w"
  have len: "rid < length (runs ?w')"
    using Cons.prems(1) by (simp add: continuation_frame)
  have settled: "promiseToSend (runs ?w' ! rid) = Rejected e"
    using Cons.prems(2) by (simp add: continuation_promiseToSend)
  have "rid \<in> set js \<or> returned (runs ?w' ! rid) = Rejected (new_error e)"
  proof (cases "j = rid")
    case True
    then show ?thesis
      using Cons.prems(1,2) by (simp add: continuation_def)
  next
    case False
    then show ?thesis
      using Cons.prems(3) by (auto simp: continuation_other)
  qed
  with len settled show ?case
    using Cons.IH [of ?w'] by simp
qed

lemma drain_rejects:
  assumes "rid < length (runs w)" and "promiseToSend (runs w ! rid) = Rejected e"
    and "rid \<in> set (jobs w)"
  shows "returned (runs (drain w) ! rid) = Rejected (new_error e)"
  unfolding drain_def
  using assms by (intro fold_continuation_rejects) simp_all

text \<open>
  An activation suspended at its \<^verbatim>\<open>await\<close> fails by an \<^verbatim>\<open>error\<close> of its child, and by
  the abort of a signal on which its listener is subscribed: the call is rejected and its
  key is deleted.
\<close>

lemma error_or_abort_rejects:
  assumes "rid < length (runs w)" and "promiseToSend (runs w ! rid) = Pending"
    and "returned (runs w ! rid) = Pending"
    and "(ev = Error rid e \<and> child_listeners (runs w ! rid))
         \<or> (ev \<in> {Abort sg, AbortCall sg} \<and> sg \<notin> aborted w
             \<and> (sg, rid) \<in> set (abort_listeners w))"
  shows "(\<exists>x. status (step (step w ev) EndOfJob) (InFlight rid) = Rejected x)
       \<and> memoizedCache (step (step w ev) EndOfJob) (cacheKey (runs w ! rid)) = None"
proof -
  obtain x where rejected: "returned (runs (drain (step w ev)) ! rid) = Rejected x"
    and before: "returned (runs (step w ev) ! rid) = Pending
                 \<or> returned (runs (step w ev) ! rid) = Rejected x"
  proof -
    from assms(4) consider
        (err) "ev = Error rid e" "child_listeners (runs w ! rid)"
      | (ab) "ev \<in> {Abort sg, AbortCall sg}" "sg \<notin> aborted w"
             "(sg, rid) \<in> set (abort_listeners w)"
      by blast
    then show ?thesis
    proof cases
      case err
      let ?w1 = "drain w"
      have w1: "rid < length (runs ?w1)" "promiseToSend (runs ?w1 ! rid) = Pending"
        "child_listeners (runs ?w1 ! rid)"
        using assms(1,2) err(2) by (simp_all add: drain_frame drain_run)
      let ?w2 = "emit_error rid e ?w1"
      have w2eq: "?w2 = reject rid e ?w1"
        using w1 by (simp add: emit_error_def errorHandler_def)
      have w2: "rid < length (runs ?w2)" "promiseToSend (runs ?w2 ! rid) = Rejected e"
        "rid \<in> set (jobs ?w2)"
        unfolding w2eq using w1 reject_queues [of rid ?w1 e] by (simp_all add: reject_frame)
      have r: "returned (runs (drain ?w2) ! rid) = Rejected (new_error e)"
        using w2 by (rule drain_rejects)
      have st: "step w ev = drain ?w2" using err(1) by simp
      have len: "rid < length (runs (drain ?w2))" "promiseToSend (runs (drain ?w2) ! rid) = Rejected e"
        using w2 by (simp_all add: drain_frame drain_run)
      have "returned (runs (drain (drain ?w2)) ! rid) = Rejected (new_error e)"
        unfolding drain_def [of "drain ?w2"]
        using len r by (intro fold_continuation_rejects) simp_all
      then show ?thesis using that r st by simp
    next
      case ab
      let ?e = "DOMException ''Signal already aborted'' ''AbortError''"
      let ?rs = "map snd (filter (\<lambda>l. fst l = sg) (abort_listeners w))"
      let ?w0 = "w\<lparr>aborted := insert sg (aborted w)\<rparr>"
      let ?w2 = "abort sg w"
      have mem: "rid \<in> set ?rs" using ab(3) by force
      have w2eq: "?w2 = fold abortHandler ?rs ?w0"
        using ab(2) by (simp add: abort_def)
      have q: "promiseToSend (runs ?w2 ! rid) = Rejected ?e \<and> rid \<in> set (jobs ?w2)"
        unfolding w2eq using assms(1,2) mem
        by (intro fold_abortHandler_queues) simp_all
      have len: "rid < length (runs ?w2)"
        using assms(1) by (simp add: abort_frame)
      have r: "returned (runs (drain ?w2) ! rid) = Rejected (new_error ?e)"
        using len q by (intro drain_rejects) simp_all
      have len': "rid < length (runs (drain ?w2))"
        "promiseToSend (runs (drain ?w2) ! rid) = Rejected ?e"
        using len q by (simp_all add: drain_frame drain_run)
      have rr: "returned (runs (drain (drain ?w2)) ! rid) = Rejected (new_error ?e)"
        unfolding drain_def [of "drain ?w2"]
        using len' r by (intro fold_continuation_rejects) simp_all
      have p: "returned (runs ?w2 ! rid) = Pending"
        using assms(3) by (simp add: abort_run)
      from ab(1) have "ev = Abort sg \<or> ev = AbortCall sg" by simp
      then show ?thesis
      proof
        assume "ev = Abort sg"
        then show ?thesis using that [of "new_error ?e"] r rr by simp
      next
        assume "ev = AbortCall sg"
        then show ?thesis using that [of "new_error ?e"] r p by simp
      qed
    qed
  qed
  have len: "rid < length (runs (step w ev))"
    using assms(1) assms(4)
    by (auto simp: drain_frame emit_error_frame abort_frame)
  have key: "cacheKey (runs (step w ev) ! rid) = cacheKey (runs w ! rid)"
    using assms(1) by (rule step_cacheKey)
  have st: "status (step (step w ev) EndOfJob) (InFlight rid) = Rejected x"
    using rejected len by (simp add: drain_frame)
  have "memoizedCache (step (step w ev) EndOfJob) (cacheKey (runs w ! rid)) = None"
  proof -
    from before show ?thesis
    proof
      assume "returned (runs (step w ev) ! rid) = Pending"
      then have "memoizedCache (step (step w ev) EndOfJob) (cacheKey (runs (step w ev) ! rid)) = None"
        using len rejected by (intro step_rejected_cache) simp_all
      then show ?thesis using key by simp
    next
      assume r: "returned (runs (step w ev) ! rid) = Rejected x"
      have "memoizedCache (step w ev) (cacheKey (runs w ! rid)) = None"
        using assms(1,3) r by (rule step_rejected_cache)
      then show ?thesis by (simp add: drain_cache_None)
    qed
  qed
  with st show ?thesis by blast
qed

subsection \<open>Two traces of the queue\<close>

text \<open>
  Between a call of \<^verbatim>\<open>abort\<close> and the end of the caller's job the continuation has not
  run: the call is still pending, the key is still cached and a \<^verbatim>\<open>run\<close> with that
  key is answered from the cache. After the end of the job the call is rejected and such
  a \<^verbatim>\<open>run\<close> starts an activation.
\<close>

lemma run_between_abort_and_continuation:
  "status (exec (constructor 0 7 ''cat'') [Run (Some 1), AbortCall 1]) (InFlight 0) = Pending
   \<and> fst (run (exec (constructor 0 7 ''cat'') [Run (Some 1), AbortCall 1]) (Some 2))
       = Returned Fulfilled
   \<and> status (exec (constructor 0 7 ''cat'') [Run (Some 1), AbortCall 1, EndOfJob])
        (InFlight 0) = Rejected (TypeError ''error is not a constructor'')
   \<and> fst (run (exec (constructor 0 7 ''cat'') [Run (Some 1), AbortCall 1, EndOfJob]) (Some 2))
       = InFlight 1"
  by (simp add: world_defs)

text \<open>
  The empty command: \<^verbatim>\<open>spawn\<close> throws, no process is started and nothing is
  subscribed; the key is cached until the continuation has run, which deletes it and
  rejects the call.
\<close>

lemma run_with_empty_command:
  "spawned (exec (constructor 0 7 []) [Run (Some 1)]) = []
   \<and> abort_listeners (exec (constructor 0 7 []) [Run (Some 1)]) = []
   \<and> status (exec (constructor 0 7 []) [Run (Some 1)]) (InFlight 0) = Pending
   \<and> dom (memoizedCache (exec (constructor 0 7 []) [Run (Some 1)]))
       = {string_of_int 7 @ ''_false''}
   \<and> status (exec (constructor 0 7 []) [Run (Some 1), EndOfJob]) (InFlight 0)
       = Rejected (TypeError ''error is not a constructor'')
   \<and> memoizedCache (exec (constructor 0 7 []) [Run (Some 1), EndOfJob]) = Map.empty"
  by (simp add: world_defs)

section \<open>The claims\<close>

text \<open>
  C1. A second \<^verbatim>\<open>run\<close> with the signal of a run still in flight: one process is spawned,
  but the second call is not joined to the first. It hands back a promise that is
  fulfilled at once, while the promise of the first call is pending, and stays fulfilled
  when the first call is rejected after an \<^verbatim>\<open>error\<close> event of the child.
\<close>

theorem second_run_returns_while_first_in_flight:
  "fst (run (constructor 0 7 ''cat'') (Some 1)) = InFlight 0
   \<and> fst (run (exec (constructor 0 7 ''cat'') [Run (Some 1)]) (Some 1))
       = Returned Fulfilled
   \<and> spawned (exec (constructor 0 7 ''cat'') [Run (Some 1), Run (Some 1)])
       = [''cat'']
   \<and> status (exec (constructor 0 7 ''cat'') [Run (Some 1), Run (Some 1)]) (InFlight 0)
       = Pending
   \<and> status (exec (constructor 0 7 ''cat'') [Run (Some 1), Run (Some 1)])
        (Returned Fulfilled) = Fulfilled
   \<and> status (exec (constructor 0 7 ''cat'')
               [Run (Some 1), Run (Some 1), Error 0 (ErrorObject 3)]) (InFlight 0)
       = Rejected (TypeError ''error is not a constructor'')
   \<and> status (exec (constructor 0 7 ''cat'')
               [Run (Some 1), Run (Some 1), Error 0 (ErrorObject 3)]) (Returned Fulfilled)
       = Fulfilled"
  by (simp add: world_defs)

text \<open>
  C2. The key is built from the id and the \<^verbatim>\<open>aborted\<close> flag of the signal, not from the
  identity of the signal: the two distinct signals 1 and 2, neither aborted, get the same
  key, and a \<^verbatim>\<open>run\<close> with signal 2 is answered from the entry that the run with signal 1
  wrote, without a process of its own.
\<close>

theorem distinct_signals_share_cache_key:
  "(1::sigid) \<noteq> 2
   \<and> buildCacheKey (constructor 0 7 ''cat'') (Some 1)
       = buildCacheKey (constructor 0 7 ''cat'') (Some 2)
   \<and> run (exec (constructor 0 7 ''cat'') [Run (Some 1)]) (Some 2)
       = (Returned Fulfilled, exec (constructor 0 7 ''cat'') [Run (Some 1)])
   \<and> spawned (exec (constructor 0 7 ''cat'') [Run (Some 1), Run (Some 2)])
       = [''cat'']"
  by (simp add: world_defs)

text \<open>
  C3. The child terminates with exit code 1: \<^verbatim>\<open>closeHandler\<close> returns without settling
  the promise. The call is still pending, the key is still in the cache, and the next
  \<^verbatim>\<open>run\<close> without a signal is answered from that entry.
\<close>

theorem nonzero_exit_leaves_run_pending:
  "status (exec (constructor 0 7 ''false'') [Run None, Close 0 (Some 1)]) (InFlight 0)
     = Pending
   \<and> memoizedCache (exec (constructor 0 7 ''false'') [Run None, Close 0 (Some 1)])
       (buildCacheKey (constructor 0 7 ''false'') None) = Some 0
   \<and> fst (run (exec (constructor 0 7 ''false'') [Run None, Close 0 (Some 1)]) None)
       = Returned Fulfilled"
  by (simp add: world_defs)

text \<open>
  C4. \<^verbatim>\<open>memoize\<close> spawns nothing and hands back the object itself, but it writes the
  no-signal key into the cache. The first \<^verbatim>\<open>run\<close> without a signal after it therefore
  finds the key and is fulfilled at once: no process is spawned by it, nor by the next.
\<close>

theorem run_after_memoize_spawns_nothing:
  "fst (memoize (constructor 0 7 ''true'')) = 0
   \<and> spawned (exec (constructor 0 7 ''true'') [Memoize]) = []
   \<and> run (exec (constructor 0 7 ''true'') [Memoize]) None
       = (Returned Fulfilled, exec (constructor 0 7 ''true'') [Memoize])
   \<and> spawned (exec (constructor 0 7 ''true'') [Memoize, Run None, Run None]) = []"
  by (simp add: world_defs)

text \<open>
  C5. The signal is aborted while the child runs. The call is rejected and the key is
  deleted, but the value of the rejection is the \<^verbatim>\<open>TypeError\<close> of \<^verbatim>\<open>new error\<close>, not
  the \<^verbatim>\<open>AbortError\<close>, and \<^verbatim>\<open>kill\<close> is not called on the child, whose listeners stay
  attached. Once the timer has fired, an abort does not reach the call at all.
\<close>

theorem abort_during_execution_leaves_child_running:
  "status (exec (constructor 0 7 ''cat'') [Run (Some 1), Abort 1]) (InFlight 0)
     = Rejected (TypeError ''error is not a constructor'')
   \<and> promiseToSend (runs (exec (constructor 0 7 ''cat'') [Run (Some 1), Abort 1]) ! 0)
       = Rejected (DOMException ''Signal already aborted'' ''AbortError'')
   \<and> child_killed (runs (exec (constructor 0 7 ''cat'') [Run (Some 1), Abort 1]) ! 0)
       = False
   \<and> child_listeners (runs (exec (constructor 0 7 ''cat'') [Run (Some 1), Abort 1]) ! 0)
       = True
   \<and> memoizedCache (exec (constructor 0 7 ''cat'') [Run (Some 1), Abort 1]) = Map.empty
   \<and> status (exec (constructor 0 7 ''cat'') [Run (Some 1), Timeout 0, Abort 1])
        (InFlight 0) = Pending"
  by (simp add: world_defs)

text \<open>
  C6. The child emits \<^verbatim>\<open>error\<close> with an error object. \<^verbatim>\<open>promiseToSend\<close> is rejected
  with that object, but the \<^verbatim>\<open>catch\<close> block throws \<^verbatim>\<open>new error\<close>: the caller receives a
  \<^verbatim>\<open>TypeError\<close>, which is not the object the child emitted.
\<close>

theorem process_error_cause_replaced:
  "promiseToSend
     (runs (exec (constructor 0 7 ''nosuchcommand'') [Run None, Error 0 (ErrorObject 3)]) ! 0)
     = Rejected (ErrorObject 3)
   \<and> status (exec (constructor 0 7 ''nosuchcommand'') [Run None, Error 0 (ErrorObject 3)])
        (InFlight 0) = Rejected (TypeError ''error is not a constructor'')
   \<and> TypeError ''error is not a constructor'' \<noteq> ErrorObject 3"
  by (simp add: world_defs)

text \<open>
  C7. A signal that is already aborted when \<^verbatim>\<open>run\<close> is called: the call hands back the
  promise rejected with the \<^verbatim>\<open>AbortError\<close> of \<^verbatim>\<open>handleAbortedSignal\<close>, the world is the
  one before the call (nothing spawned, cache and listeners as they were), and the
  outcome is the same whatever the cache holds.
\<close>

theorem run_aborted_before_start:
  assumes "sg \<in> aborted w"
  shows "run w (Some sg) =
           (Returned (Rejected (DOMException ''Signal already aborted!'' ''AbortError'')), w)
         \<and> spawned (snd (run w (Some sg))) = spawned w
         \<and> memoizedCache (snd (run w (Some sg))) = memoizedCache w
         \<and> fst (run (w\<lparr>memoizedCache := m\<rparr>) (Some sg)) = fst (run w (Some sg))"
  using assms by (simp add: run_def handleAbortedSignal_def)

theorem run_aborted_before_start_witness:
  "(1::nat) \<in> aborted (step (constructor 0 7 ''cat'') (Abort 1))
   \<and> run (step (constructor 0 7 ''cat'') (Abort 1)) (Some 1) =
       (Returned (Rejected (DOMException ''Signal already aborted!'' ''AbortError'')),
        step (constructor 0 7 ''cat'') (Abort 1))
   \<and> spawned (snd (run (step (constructor 0 7 ''cat'') (Abort 1)) (Some 1))) = []"
proof -
  have h: "(1::nat) \<in> aborted (step (constructor 0 7 ''cat'') (Abort 1))"
    by (simp add: world_defs)
  have s: "spawned (step (constructor 0 7 ''cat'') (Abort 1)) = []"
    by (simp add: world_defs)
  show ?thesis
    using h s run_aborted_before_start [OF h] by simp
qed

text \<open>
  C8. Cleanup is the business of the success branch of \<^verbatim>\<open>closeHandler\<close> alone. After
  an \<^verbatim>\<open>error\<close> event the call is rejected while the child is not killed, its listeners
  are attached and the abort listener is subscribed; an abort that follows changes
  nothing of this. After a clean exit the child is cleaned up, but the abort listener
  stays subscribed until the timer fires.
\<close>

theorem rejected_run_skips_cleanup:
  "status (exec (constructor 0 7 ''cat'') [Run (Some 1), Error 0 (ErrorObject 3)])
     (InFlight 0) = Rejected (TypeError ''error is not a constructor'')
   \<and> child_killed
       (runs (exec (constructor 0 7 ''cat'') [Run (Some 1), Error 0 (ErrorObject 3)]) ! 0)
       = False
   \<and> child_listeners
       (runs (exec (constructor 0 7 ''cat'') [Run (Some 1), Error 0 (ErrorObject 3)]) ! 0)
       = True
   \<and> abort_listeners
       (exec (constructor 0 7 ''cat'') [Run (Some 1), Error 0 (ErrorObject 3)])
       = [(1, 0)]
   \<and> child_killed
       (runs (exec (constructor 0 7 ''cat'')
                [Run (Some 1), Error 0 (ErrorObject 3), Abort 1]) ! 0) = False
   \<and> child_listeners
       (runs (exec (constructor 0 7 ''cat'')
                [Run (Some 1), Error 0 (ErrorObject 3), Abort 1]) ! 0) = True
   \<and> status (exec (constructor 0 7 ''cat'') [Run (Some 1), Close 0 (Some 0)])
        (InFlight 0) = Fulfilled
   \<and> child_killed
       (runs (exec (constructor 0 7 ''cat'') [Run (Some 1), Close 0 (Some 0)]) ! 0)
       = True
   \<and> abort_listeners (exec (constructor 0 7 ''cat'') [Run (Some 1), Close 0 (Some 0)])
       = [(1, 0)]
   \<and> abort_listeners
       (exec (constructor 0 7 ''cat'') [Run (Some 1), Close 0 (Some 0), Timeout 0])
       = []"
  by (simp add: world_defs)




text \<open>
  C10. In every world that a freshly constructed object with id \<open>i\<close> reaches by calls
  and events, the keys of the cache are among \<^verbatim>\<open>i_undefined\<close> and \<^verbatim>\<open>i_false\<close>; the key
  \<^verbatim>\<open>i_true\<close> is not in it; it has at most two entries; and every entry holds the object
  itself.
\<close>

theorem cache_keys_invariant:
  assumes "reachable (constructor ref i cmd) w"
  shows "dom (memoizedCache w)
           \<subseteq> {string_of_int i @ ''_undefined'', string_of_int i @ ''_false''}
       \<and> string_of_int i @ ''_true'' \<notin> dom (memoizedCache w)
       \<and> finite (dom (memoizedCache w)) \<and> card (dom (memoizedCache w)) \<le> 2
       \<and> ran (memoizedCache w) \<subseteq> {ref}"
proof -
  let ?K = "{string_of_int i @ ''_undefined'', string_of_int i @ ''_false''}"
  have inv: "\<forall>k v. memoizedCache w k = Some v \<longrightarrow>
            v = ref \<and> (k = string_of_int i @ ''_undefined''
                        \<or> k = string_of_int i @ ''_false'')"
    using reachable_cache [OF assms] by simp
  have sub: "dom (memoizedCache w) \<subseteq> ?K"
    using inv by auto
  have "string_of_int i @ ''_true'' \<notin> ?K" by simp
  then have no_true: "string_of_int i @ ''_true'' \<notin> dom (memoizedCache w)"
    using sub by blast
  have fin: "finite (dom (memoizedCache w))"
    using sub by (rule finite_subset) simp
  have "card (dom (memoizedCache w)) \<le> card ?K"
    using sub by (intro card_mono) simp_all
  also have "\<dots> \<le> 2" by (simp add: card_insert_if)
  finally have small: "card (dom (memoizedCache w)) \<le> 2" .
  have vals: "ran (memoizedCache w) \<subseteq> {ref}"
    using inv by (auto simp: ran_def)
  show ?thesis using sub no_true fin small vals by simp
qed

theorem cache_keys_invariant_witness:
  "reachable (constructor 4 7 ''true'')
     (step (step (constructor 4 7 ''true'') Memoize) (Run (Some 1)))
   \<and> dom (memoizedCache (step (step (constructor 4 7 ''true'') Memoize) (Run (Some 1))))
       = {''7_undefined'', ''7_false''}
   \<and> ''7_true'' \<notin>
       dom (memoizedCache (step (step (constructor 4 7 ''true'') Memoize) (Run (Some 1))))
   \<and> ran (memoizedCache (step (step (constructor 4 7 ''true'') Memoize) (Run (Some 1))))
       \<subseteq> {4}"
proof -
  let ?w = "step (step (constructor 4 7 ''true'') Memoize) (Run (Some 1))"
  have r: "reachable (constructor 4 7 ''true'') ?w"
    by (intro reachable.intros)
  have s: "string_of_int 7 = ''7''"
    by (simp add: string_of_int_def string_of_nat.simps)
  have d: "dom (memoizedCache ?w) = {''7_undefined'', ''7_false''}"
    by (auto simp: world_defs s split: if_splits)
  show ?thesis using r d cache_keys_invariant [OF r] by (simp add: s)
qed

end
